theory Spec2Isabelle
  imports Main "HOL-Library.Sublist"
begin

section \<open>The Gemini relay function of netlify/functions/gemini-proxy.js\<close>

text \<open>
  The source file holds two implementations of \<^verbatim>\<open>exports.handler\<close>: the one of lines
  14 to 115 (here \<open>handler\<close>) and the near-duplicate of lines 132 to 213 (here
  \<open>handler2\<close>). Both are embedded. What the JavaScript runtime supplies, the built-in
  \<^verbatim>\<open>JSON.parse\<close>, \<^verbatim>\<open>process.env\<close> and \<^verbatim>\<open>fetch\<close>, is a parameter of the model (the record
  \<open>runtime\<close>), so that every property holds of every parser, environment and upstream;
  \<^verbatim>\<open>JSON.stringify\<close>, which writes every response body, is modelled in full. Console output is not modelled, except that an argument of a logging call
  whose evaluation can throw is evaluated (line 63). The messages of the errors that the
  engine itself throws are those of V8, the engine of Node.js; no property below depends
  on their wording.
\<close>

subsection \<open>JavaScript values\<close>

text \<open>
  The values \<^verbatim>\<open>JSON.parse\<close> returns. A number is identified by the text that
  \<^verbatim>\<open>Number.prototype.toString\<close> gives for it (\<open>''0''\<close> for both zeros), so that no
  floating-point arithmetic is needed; the properties of an object are listed in
  enumeration order, each name once. \<^verbatim>\<open>undefined\<close> is \<open>None\<close> of \<open>json option\<close>.
\<close>

datatype json =
    JNull
  | JBool bool
  | JNum string
  | JStr string
  | JArr "json list"
  | JObj "(string \<times> json) list"

datatype js_error = JsError (name: string) (message: string)

definition TypeError :: "string \<Rightarrow> js_error" where
  "TypeError msg = JsError ''TypeError'' msg"

datatype 'a promise = Fulfilled 'a | Rejected js_error

text \<open>\<^verbatim>\<open>!v\<close> is \<open>\<not> truthy v\<close>.\<close>

fun truthy :: "json option \<Rightarrow> bool" where
  "truthy None = False"
| "truthy (Some JNull) = False"
| "truthy (Some (JBool b)) = b"
| "truthy (Some (JNum r)) = (r \<noteq> ''0'' \<and> r \<noteq> ''NaN'')"
| "truthy (Some (JStr s)) = (s \<noteq> [])"
| "truthy (Some (JArr xs)) = True"
| "truthy (Some (JObj kvs)) = True"

text \<open>
  Reading one of the properties the handlers read (\<^verbatim>\<open>prompt\<close>, \<^verbatim>\<open>error\<close>,
  \<^verbatim>\<open>message\<close>) from a value that is not \<^verbatim>\<open>null\<close>: an object gives its own property
  or \<^verbatim>\<open>undefined\<close>, every other value gives \<^verbatim>\<open>undefined\<close>, since no built-in
  prototype has a property of these names.
\<close>

definition own_prop :: "json \<Rightarrow> string \<Rightarrow> json option" where
  "own_prop v k = (case v of JObj kvs \<Rightarrow> map_of kvs k | _ \<Rightarrow> None)"

text \<open>\<^verbatim>\<open>v.k\<close>: a TypeError on \<^verbatim>\<open>null\<close> (the message is the one of V8).\<close>

definition get_prop :: "json \<Rightarrow> string \<Rightarrow> js_error + json option" where
  "get_prop v k =
     (if v = JNull
      then Inl (TypeError (''Cannot read properties of null (reading '' @ [CHR 0x27] @ k @ [CHR 0x27] @ '')''))
      else Inr (own_prop v k))"

text \<open>\<^verbatim>\<open>const { k } = v\<close>, where \<^verbatim>\<open>v\<close> is the variable \<^verbatim>\<open>requestBody\<close>.\<close>

definition destructure :: "json \<Rightarrow> string \<Rightarrow> js_error + json option" where
  "destructure v k =
     (if v = JNull
      then Inl (TypeError (''Cannot destructure property '' @ [CHR 0x27] @ k @ [CHR 0x27]
                           @ '' of '' @ [CHR 0x27] @ ''requestBody'' @ [CHR 0x27] @ '' as it is null.''))
      else Inr (own_prop v k))"

text \<open>\<^verbatim>\<open>v?.k\<close> on a value that may be \<^verbatim>\<open>undefined\<close>.\<close>

definition opt_chain :: "json option \<Rightarrow> string \<Rightarrow> json option" where
  "opt_chain v k =
     (case v of None \<Rightarrow> None | Some x \<Rightarrow> if x = JNull then None else own_prop x k)"

text \<open>
  The conversion to a string that a template literal applies. An array is joined with
  commas, \<^verbatim>\<open>null\<close> elements giving the empty string; an object gives
  \<^verbatim>\<open>[object Object]\<close>, unless it has an own property \<^verbatim>\<open>toString\<close>, which parsed JSON
  never makes callable, so that the conversion throws.
\<close>

fun ToString :: "json \<Rightarrow> js_error + string"
  and join :: "json list \<Rightarrow> js_error + string" where
  "ToString JNull = Inr ''null''"
| "ToString (JBool b) = Inr (if b then ''true'' else ''false'')"
| "ToString (JNum r) = Inr r"
| "ToString (JStr s) = Inr s"
| "ToString (JArr xs) = join xs"
| "ToString (JObj kvs) =
     (if ''toString'' \<in> fst ` set kvs
      then Inl (TypeError ''Cannot convert object to primitive value'')
      else Inr ''[object Object]'')"
| "join [] = Inr ''''"
| "join (x # xs) =
     (case (if x = JNull then Inr '''' else ToString x) of
        Inl e \<Rightarrow> Inl e
      | Inr s \<Rightarrow>
         (if xs = [] then Inr s
          else (case join xs of Inl e \<Rightarrow> Inl e | Inr t \<Rightarrow> Inr (s @ '','' @ t))))"

text \<open>
  A digit below sixteen as a character, and the decimal text of a status code, as \<^verbatim>\<open>${geminiResponse.status}\<close> gives it.
\<close>

definition digit_char :: "nat \<Rightarrow> char" where
  "digit_char d = ''0123456789abcdef'' ! d"

function decimal :: "nat \<Rightarrow> string" where
  "decimal n =
     (if n < 10 then [digit_char n]
      else decimal (n div 10) @ [digit_char (n mod 10)])"
  by pat_completeness auto
termination
  by (relation "measure id") auto

declare decimal.simps [simp del]

text \<open>
  \<^verbatim>\<open>`${m || fallback}`\<close>: the text of \<^verbatim>\<open>m\<close> when it is truthy, the fallback
  otherwise.
\<close>

definition or_text :: "json option \<Rightarrow> string \<Rightarrow> js_error + string" where
  "or_text m fallback =
     (case (if truthy m then m else None) of
        None \<Rightarrow> Inr fallback
      | Some v \<Rightarrow> ToString v)"

subsection \<open>JSON.stringify\<close>

text \<open>
  \<^verbatim>\<open>JSON.stringify\<close> with one argument, on the values above: no white space, the
  properties in enumeration order, a number that is not finite as \<^verbatim>\<open>null\<close>. A string is
  quoted; the quote, the backslash and the control characters are escaped, every other
  character is copied.
\<close>

definition quote_char :: "char \<Rightarrow> string" where
  "quote_char c =
     (if c = CHR 0x22 then [CHR 0x5C, CHR 0x22]
      else if c = CHR 0x5C then [CHR 0x5C, CHR 0x5C]
      else if c = CHR 0x08 then [CHR 0x5C, CHR ''b'']
      else if c = CHR 0x09 then [CHR 0x5C, CHR ''t'']
      else if c = CHR 0x0A then [CHR 0x5C, CHR ''n'']
      else if c = CHR 0x0C then [CHR 0x5C, CHR ''f'']
      else if c = CHR 0x0D then [CHR 0x5C, CHR ''r'']
      else if (of_char c :: nat) < 32
        then [CHR 0x5C, CHR ''u'', CHR ''0'', CHR ''0'',
              digit_char (of_char c div 16), digit_char (of_char c mod 16)]
      else [c])"

definition quote :: "string \<Rightarrow> string" where
  "quote s = [CHR 0x22] @ concat (map quote_char s) @ [CHR 0x22]"

fun commas :: "string list \<Rightarrow> string" where
  "commas [] = []"
| "commas [s] = s"
| "commas (s # t # ts) = s @ '','' @ commas (t # ts)"

fun JSON_stringify :: "json \<Rightarrow> string" where
  "JSON_stringify JNull = ''null''"
| "JSON_stringify (JBool b) = (if b then ''true'' else ''false'')"
| "JSON_stringify (JNum r) =
     (if r = ''Infinity'' \<or> r = ''-Infinity'' \<or> r = ''NaN'' then ''null'' else r)"
| "JSON_stringify (JStr s) = quote s"
| "JSON_stringify (JArr xs) = ''['' @ commas (map JSON_stringify xs) @ '']''"
| "JSON_stringify (JObj kvs) =
     ''{'' @ commas (map (\<lambda>(k, v). quote k @ '':'' @ JSON_stringify v) kvs) @ ''}''"

text \<open>
  An object literal whose property \<^verbatim>\<open>details\<close> may be \<^verbatim>\<open>undefined\<close>:
  \<^verbatim>\<open>JSON.stringify\<close> leaves such a property out.
\<close>

definition opt_field :: "string \<Rightarrow> json option \<Rightarrow> (string \<times> json) list" where
  "opt_field k v = (case v of None \<Rightarrow> [] | Some x \<Rightarrow> [(k, x)])"

subsection \<open>The event, the response and the runtime\<close>

record event =
  httpMethod :: string
  event_body :: string

record response =
  statusCode :: nat
  headers :: "(string \<times> string) list"
  body :: string

record fetch_request =
  url :: string
  request_method :: string
  request_headers :: "(string \<times> string) list"
  request_body :: string

text \<open>
  A response object without the property \<^verbatim>\<open>headers\<close> has the empty list of headers.
  What \<^verbatim>\<open>fetch\<close> resolves to is the status and the promise that \<^verbatim>\<open>text()\<close> returns.
\<close>

record fetch_response =
  status :: nat
  body_text :: "string promise"

definition ok :: "fetch_response \<Rightarrow> bool" where
  "ok r = (200 \<le> status r \<and> status r \<le> 299)"

text \<open>
  The runtime: \<^verbatim>\<open>JSON.parse\<close> (\<open>Inl\<close> the SyntaxError it throws),
  \<^verbatim>\<open>process.env.GEMINI_API_KEY\<close> (\<open>None\<close> when the variable is not set) and \<^verbatim>\<open>fetch\<close>.
\<close>

record runtime =
  JSON_parse :: "string \<Rightarrow> js_error + json"
  GEMINI_API_KEY :: "string option"
  fetch :: "fetch_request \<Rightarrow> fetch_response promise"

text \<open>
  \<^verbatim>\<open>!GEMINI_API_KEY\<close> is \<open>\<not> key_set k\<close>: the variable is not set or is empty.
\<close>

definition key_set :: "string option \<Rightarrow> bool" where
  "key_set k = (case k of None \<Rightarrow> False | Some s \<Rightarrow> s \<noteq> [])"

text \<open>
  An invocation either returns a response or throws (the promise of the async function
  rejects); with it, the list of the calls of \<^verbatim>\<open>fetch\<close> it made.
\<close>

datatype completion = Returns response | Throws js_error

type_synonym result = "completion \<times> fetch_request list"

definition no_call :: "completion \<Rightarrow> result" where
  "no_call c = (c, [])"

definition json_headers :: "(string \<times> string) list" where
  "json_headers = [(''Content-Type'', ''application/json'')]"

subsection \<open>The handler of lines 14 to 115\<close>

definition gemini_url :: "string \<Rightarrow> string" where
  "gemini_url key =
     ''https://generativelanguage.googleapis.com/v1beta/models/gemini-2.0-flash:generateContent?key='' @ key"

text \<open>Lines 59 to 60 and 66 to 72: the request sent to the upstream API.\<close>

definition gemini_request :: "string \<Rightarrow> json \<Rightarrow> fetch_request" where
  "gemini_request key prompt =
     \<lparr>url = gemini_url key,
      request_method = ''POST'',
      request_headers = [(''Content-Type'', ''application/json'')],
      request_body =
        JSON_stringify
          (JObj [(''contents'',
                  JArr [JObj [(''role'', JStr ''user''),
                              (''parts'', JArr [JObj [(''text'', prompt)]])]])])\<rparr>"

text \<open>
  Line 63: \<^verbatim>\<open>prompt.substring(0, 100) + "..."\<close>, on a prompt that is truthy. Only a
  string has the method.
\<close>

definition snippet :: "json \<Rightarrow> js_error + string" where
  "snippet prompt =
     (case prompt of
        JStr s \<Rightarrow> Inr (take 100 s @ ''...'')
      | _ \<Rightarrow> Inl (TypeError ''prompt.substring is not a function''))"

text \<open>Lines 107 to 114: the \<^verbatim>\<open>catch\<close> of the outer \<^verbatim>\<open>try\<close>.\<close>

definition proxy_error :: "js_error \<Rightarrow> completion" where
  "proxy_error e =
     Returns \<lparr>statusCode = 500, headers = json_headers,
       body = JSON_stringify
         (JObj [(''error'', JStr (''Proxy function execution error: '' @ message e))])\<rparr>"

text \<open>Lines 91 to 105: the parsed reply is translated.\<close>

definition translate :: "fetch_response \<Rightarrow> json \<Rightarrow> completion" where
  "translate geminiResponse geminiData =
     (if \<not> ok geminiResponse then
        (case get_prop geminiData ''error'' of
           Inl e \<Rightarrow> proxy_error e
         | Inr err \<Rightarrow>
            (case or_text (opt_chain err ''message'')
                    (''Gemini API responded with status '' @ decimal (status geminiResponse)) of
               Inl e \<Rightarrow> proxy_error e
             | Inr errorMessage \<Rightarrow>
                Returns \<lparr>statusCode = status geminiResponse, headers = json_headers,
                  body = JSON_stringify
                    (JObj ((''error'', JStr (''Gemini API Error: '' @ errorMessage))
                           # opt_field ''details'' err))\<rparr>))
      else
        Returns \<lparr>statusCode = 200, headers = json_headers,
          body = JSON_stringify geminiData\<rparr>)"

text \<open>Lines 65 to 114: the \<^verbatim>\<open>try\<close> block around the upstream call.\<close>

definition relay :: "runtime \<Rightarrow> fetch_request \<Rightarrow> completion" where
  "relay rt req =
     (case fetch rt req of
        Rejected e \<Rightarrow> proxy_error e
      | Fulfilled geminiResponse \<Rightarrow>
         (case body_text geminiResponse of
            Rejected e \<Rightarrow> proxy_error e
          | Fulfilled responseBodyText \<Rightarrow>
             (case JSON_parse rt responseBodyText of
                Inl e \<Rightarrow>
                  Returns \<lparr>statusCode = 502, headers = json_headers,
                    body = JSON_stringify
                      (JObj [(''error'', JStr ''Invalid response from upstream API. Could not parse JSON.''),
                             (''details'', JStr responseBodyText)])\<rparr>
              | Inr geminiData \<Rightarrow> translate geminiResponse geminiData)))"

definition handler :: "runtime \<Rightarrow> event \<Rightarrow> result" where
  "handler rt event =
     (if httpMethod event \<noteq> ''POST'' then
        no_call (Returns \<lparr>statusCode = 405,
          headers = [(''Content-Type'', ''application/json''), (''Allow'', ''POST'')],
          body = JSON_stringify (JObj [(''error'', JStr ''Method Not Allowed. Please use POST.'')])\<rparr>)
      else
        (case JSON_parse rt (event_body event) of
           Inl e \<Rightarrow>
             no_call (Returns \<lparr>statusCode = 400, headers = json_headers,
               body = JSON_stringify (JObj [(''error'', JStr ''Bad request: Could not parse JSON body.'')])\<rparr>)
         | Inr requestBody \<Rightarrow>
            (case destructure requestBody ''prompt'' of
               Inl e \<Rightarrow> no_call (Throws e)
             | Inr prompt \<Rightarrow>
                (case (if truthy prompt then prompt else None) of
                   None \<Rightarrow>
                     no_call (Returns \<lparr>statusCode = 400, headers = json_headers,
                       body = JSON_stringify
                         (JObj [(''error'', JStr ''Bad request: 'prompt' is missing in the request body.'')])\<rparr>)
                 | Some p \<Rightarrow>
                    (case (if key_set (GEMINI_API_KEY rt) then GEMINI_API_KEY rt else None) of
                       None \<Rightarrow>
                         no_call (Returns \<lparr>statusCode = 500, headers = json_headers,
                           body = JSON_stringify
                             (JObj [(''error'', JStr ''Server configuration error: API key is missing.'')])\<rparr>)
                     | Some key \<Rightarrow>
                        (case snippet p of
                           Inl e \<Rightarrow> no_call (Throws e)
                         | Inr s \<Rightarrow>
                            (relay rt (gemini_request key p), [gemini_request key p])))))))"

subsection \<open>The handler of lines 132 to 213\<close>

text \<open>
  \<^verbatim>\<open>geminiResponse.json()\<close>: the body is read and parsed; the promise rejects when the
  body cannot be read or is not JSON.
\<close>

definition json_of :: "runtime \<Rightarrow> fetch_response \<Rightarrow> json promise" where
  "json_of rt r =
     (case body_text r of
        Rejected e \<Rightarrow> Rejected e
      | Fulfilled t \<Rightarrow> (case JSON_parse rt t of Inl e \<Rightarrow> Rejected e | Inr v \<Rightarrow> Fulfilled v))"

text \<open>Lines 206 to 212: the \<^verbatim>\<open>catch\<close>.\<close>

definition function_error :: "js_error \<Rightarrow> completion" where
  "function_error e =
     Returns \<lparr>statusCode = 500, headers = [],
       body = JSON_stringify
         (JObj [(''error'', JStr (''Function Execution Error: '' @ message e))])\<rparr>"

text \<open>Lines 177 to 212.\<close>

definition relay2 :: "runtime \<Rightarrow> fetch_request \<Rightarrow> completion" where
  "relay2 rt req =
     (case fetch rt req of
        Rejected e \<Rightarrow> function_error e
      | Fulfilled geminiResponse \<Rightarrow>
         (case json_of rt geminiResponse of
            Rejected e \<Rightarrow> function_error e
          | Fulfilled geminiData \<Rightarrow>
             (if \<not> ok geminiResponse then
                (case get_prop geminiData ''error'' of
                   Inl e \<Rightarrow> function_error e
                 | Inr err \<Rightarrow>
                    (case or_text (opt_chain err ''message'') ''Unknown Gemini API error'' of
                       Inl e \<Rightarrow> function_error e
                     | Inr errorMessage \<Rightarrow>
                        Returns \<lparr>statusCode = status geminiResponse, headers = [],
                          body = JSON_stringify
                            (JObj [(''error'', JStr (''Gemini API Error: '' @ errorMessage))])\<rparr>))
              else
                Returns \<lparr>statusCode = 200, headers = json_headers,
                  body = JSON_stringify geminiData\<rparr>)))"

definition handler2 :: "runtime \<Rightarrow> event \<Rightarrow> result" where
  "handler2 rt event =
     (if httpMethod event \<noteq> ''POST'' then
        no_call (Returns \<lparr>statusCode = 405, headers = [],
          body = JSON_stringify (JObj [(''error'', JStr ''Method Not Allowed'')])\<rparr>)
      else
        (case (case JSON_parse rt (event_body event) of
                 Inl e \<Rightarrow> Inl e
               | Inr body' \<Rightarrow> get_prop body' ''prompt'') of
           Inl e \<Rightarrow>
             no_call (Returns \<lparr>statusCode = 400, headers = [],
               body = JSON_stringify (JObj [(''error'', JStr ''Bad request: Could not parse JSON body.'')])\<rparr>)
         | Inr promptText \<Rightarrow>
            (case (if key_set (GEMINI_API_KEY rt) then GEMINI_API_KEY rt else None) of
               None \<Rightarrow>
                 no_call (Returns \<lparr>statusCode = 500, headers = [],
                   body = JSON_stringify (JObj [(''error'', JStr ''API key not configured on the server.'')])\<rparr>)
             | Some key \<Rightarrow>
                (case (if truthy promptText then promptText else None) of
                   None \<Rightarrow>
                     no_call (Returns \<lparr>statusCode = 400, headers = [],
                       body = JSON_stringify (JObj [(''error'', JStr ''No prompt provided in the request body.'')])\<rparr>)
                 | Some p \<Rightarrow>
                    (relay2 rt (gemini_request key p), [gemini_request key p])))))"

subsection \<open>Notions used to state the properties\<close>

text \<open>
  The upstream call failed in transport with the error \<open>e\<close>: \<^verbatim>\<open>fetch\<close> rejected, or
  reading the body of the reply did.
\<close>

definition transport_failure :: "runtime \<Rightarrow> fetch_request \<Rightarrow> js_error \<Rightarrow> bool" where
  "transport_failure rt req e =
     (case fetch rt req of
        Rejected e' \<Rightarrow> e' = e
      | Fulfilled r \<Rightarrow> body_text r = Rejected e)"

text \<open>The text \<open>s\<close> occurs in the body of the response returned.\<close>

definition in_body :: "string \<Rightarrow> completion \<Rightarrow> bool" where
  "in_body s c = (case c of Returns r \<Rightarrow> sublist s (body r) | Throws e \<Rightarrow> False)"

subsection \<open>Runtimes and events of the examples\<close>

text \<open>
  A runtime for the examples. Its \<^verbatim>\<open>JSON.parse\<close> gives, on each of the JSON texts
  listed, the value the built-in gives, and throws on the other texts the examples use,
  none of which is JSON.
\<close>

definition syntax_error :: js_error where
  "syntax_error = JsError ''SyntaxError'' ''Unexpected token < in JSON at position 0''"

definition parse_example :: "string \<Rightarrow> js_error + json" where
  \<open>parse_example s =
     (if s = ''null'' then Inr JNull
      else if s = ''{}'' then Inr (JObj [])
      else if s = ''{"prompt":"hi"}'' then Inr (JObj [(''prompt'', JStr ''hi'')])
      else if s = ''{"prompt":""}'' then Inr (JObj [(''prompt'', JStr [])])
      else if s = ''{"prompt":true}'' then Inr (JObj [(''prompt'', JBool True)])
      else if s = ''{"candidates":[]}'' then Inr (JObj [(''candidates'', JArr [])])
      else if s = ''{"error":{"message":"rate limited"}}''
        then Inr (JObj [(''error'', JObj [(''message'', JStr ''rate limited'')])])
      else if s = ''{"error":{"message":{"toString":1}}}''
        then Inr (JObj [(''error'', JObj [(''message'', JObj [(''toString'', JNum ''1'')])])])
      else Inl syntax_error)\<close>

definition example_runtime ::
    "string option \<Rightarrow> (fetch_request \<Rightarrow> fetch_response promise) \<Rightarrow> runtime" where
  "example_runtime key upstream =
     \<lparr>JSON_parse = parse_example, GEMINI_API_KEY = key, fetch = upstream\<rparr>"

text \<open>An upstream that replies with a status and a body, whatever the request.\<close>

definition replies :: "nat \<Rightarrow> string \<Rightarrow> fetch_request \<Rightarrow> fetch_response promise" where
  "replies st t req = Fulfilled \<lparr>status = st, body_text = Fulfilled t\<rparr>"

text \<open>
  An upstream that cannot be reached. The message is the one node-fetch 2 gives a
  failed request: it quotes the URL of the request.
\<close>

definition refuses :: "fetch_request \<Rightarrow> fetch_response promise" where
  "refuses req =
     Rejected (JsError ''FetchError''
       (''request to '' @ url req @ '' failed, reason: connect ECONNREFUSED''))"

definition post :: "string \<Rightarrow> event" where
  "post b = \<lparr>httpMethod = ''POST'', event_body = b\<rparr>"

definition get :: event where
  "get = \<lparr>httpMethod = ''GET'', event_body = []\<rparr>"

lemmas example_defs =
  example_runtime_def parse_example_def syntax_error_def replies_def refuses_def post_def get_def

lemmas handler_defs =
  handler_def handler2_def relay_def relay2_def translate_def json_of_def proxy_error_def
  function_error_def no_call_def destructure_def get_prop_def own_prop_def opt_chain_def
  or_text_def opt_field_def snippet_def key_set_def gemini_request_def gemini_url_def
  json_headers_def ok_def TypeError_def

lemmas stringify_defs = quote_def quote_char_def digit_char_def

section \<open>Properties\<close>

subsection \<open>The runtime of the examples\<close>

text \<open>
  Each JSON text that the \<^verbatim>\<open>JSON.parse\<close> of the examples knows is the serialization
  of the value it gives for it.
\<close>

lemma parse_example_stringify: "parse_example s = Inr v \<Longrightarrow> JSON_stringify v = s"
  by (auto simp: parse_example_def stringify_defs split: if_splits)

subsection \<open>The upstream call\<close>

text \<open>
  Either handler makes at most one call of \<^verbatim>\<open>fetch\<close>, only with the credential set, and
  what it returns is then what its \<^verbatim>\<open>try\<close> block makes of the outcome of that call.
\<close>

lemma handler_calls:
  "snd (handler rt ev) = [] \<or>
   (\<exists>key p. GEMINI_API_KEY rt = Some key \<and> key \<noteq> [] \<and>
        handler rt ev = (relay rt (gemini_request key p), [gemini_request key p]))"
  unfolding handler_def no_call_def
  by (auto simp: key_set_def split: sum.splits option.splits if_splits)

lemma handler2_calls:
  "snd (handler2 rt ev) = [] \<or>
   (\<exists>key p. GEMINI_API_KEY rt = Some key \<and> key \<noteq> [] \<and>
        handler2 rt ev = (relay2 rt (gemini_request key p), [gemini_request key p]))"
  unfolding handler2_def no_call_def
  by (auto simp: key_set_def split: sum.splits option.splits if_splits)

lemma handler_relay: "snd (handler rt ev) = [req] \<Longrightarrow> fst (handler rt ev) = relay rt req"
  using handler_calls [of rt ev] by auto

lemma handler2_relay: "snd (handler2 rt ev) = [req] \<Longrightarrow> fst (handler2 rt ev) = relay2 rt req"
  using handler2_calls [of rt ev] by auto

text \<open>The request that the examples with the prompt \<^verbatim>\<open>hi\<close> and the key \<^verbatim>\<open>K\<close> send.\<close>

lemma example_call:
  \<open>snd (handler (example_runtime (Some ''K'') upstream) (post ''{"prompt":"hi"}''))
     = [gemini_request ''K'' (JStr ''hi'')]\<close>
  \<open>snd (handler2 (example_runtime (Some ''K'') upstream) (post ''{"prompt":"hi"}''))
     = [gemini_request ''K'' (JStr ''hi'')]\<close>
  by (simp_all add: example_defs handler_def handler2_def destructure_def get_prop_def
      own_prop_def key_set_def snippet_def)

subsection \<open>A method other than POST\<close>

text \<open>
  Claim C10. For every event whose \<^verbatim>\<open>httpMethod\<close> is not \<^verbatim>\<open>POST\<close>, the handler returns
  the status 405 with a JSON body that has an \<^verbatim>\<open>error\<close> field, and makes no upstream
  call. This holds of both implementations, whatever the body of the event and the runtime;
  they differ in the message and in the headers.
\<close>

theorem non_post_method_not_allowed:
  assumes "httpMethod ev \<noteq> ''POST''"
  shows "handler rt ev =
           (Returns \<lparr>statusCode = 405,
              headers = [(''Content-Type'', ''application/json''), (''Allow'', ''POST'')],
              body = JSON_stringify (JObj [(''error'', JStr ''Method Not Allowed. Please use POST.'')])\<rparr>, [])
       \<and> handler2 rt ev =
           (Returns \<lparr>statusCode = 405, headers = [],
              body = JSON_stringify (JObj [(''error'', JStr ''Method Not Allowed'')])\<rparr>, [])"
  using assms by (simp add: handler_def handler2_def no_call_def)

theorem non_post_method_not_allowed_witness:
  \<open>httpMethod get \<noteq> ''POST''
   \<and> handler (example_runtime (Some ''K'') refuses) get =
       (Returns \<lparr>statusCode = 405,
          headers = [(''Content-Type'', ''application/json''), (''Allow'', ''POST'')],
          body = ''{"error":"Method Not Allowed. Please use POST."}''\<rparr>, [])
   \<and> handler2 (example_runtime (Some ''K'') refuses) get =
       (Returns \<lparr>statusCode = 405, headers = [],
          body = ''{"error":"Method Not Allowed"}''\<rparr>, [])\<close>
  using non_post_method_not_allowed [of get "example_runtime (Some ''K'') refuses"]
  by (simp add: get_def stringify_defs)

subsection \<open>An upstream reply that is not JSON\<close>

text \<open>
  Claim C1 says that for every upstream reply whose body is not valid JSON the handler
  returns the status 502 and a body whose \<^verbatim>\<open>details\<close> field is the raw text received.
  The implementation of lines 132 to 213 has no such path: \<^verbatim>\<open>geminiResponse.json()\<close>
  rejects and the \<^verbatim>\<open>catch\<close> answers 500, without \<^verbatim>\<open>details\<close>.
\<close>

theorem not_json_counterexample:
  \<open>handler2 (example_runtime (Some ''K'') (replies 503 ''<html>Service Unavailable</html>''))
       (post ''{"prompt":"hi"}'')
     = (Returns \<lparr>statusCode = 500, headers = [],
          body = ''{"error":"Function Execution Error: Unexpected token < in JSON at position 0"}''\<rparr>,
        [gemini_request ''K'' (JStr ''hi'')])\<close>
  by (simp add: example_defs handler_defs stringify_defs)

text \<open>
  Claim C1, amended. For every upstream reply whose body is not valid JSON, the
  implementation of lines 14 to 115 returns the status 502 and a body whose \<^verbatim>\<open>details\<close>
  field is the raw text received; the implementation of lines 132 to 213 returns the
  status 500 and a body whose \<^verbatim>\<open>error\<close> field is \<^verbatim>\<open>Function Execution Error: \<close>
  followed by the message of the parse error, with no \<^verbatim>\<open>details\<close> field.
\<close>

theorem upstream_not_json:
  assumes "fetch rt req = Fulfilled r" and "body_text r = Fulfilled raw"
    and "JSON_parse rt raw = Inl e"
  shows "(snd (handler rt ev) = [req] \<longrightarrow>
            fst (handler rt ev) =
              Returns \<lparr>statusCode = 502, headers = json_headers,
                body = JSON_stringify
                  (JObj [(''error'', JStr ''Invalid response from upstream API. Could not parse JSON.''),
                         (''details'', JStr raw)])\<rparr>)
       \<and> (snd (handler2 rt ev) = [req] \<longrightarrow>
            fst (handler2 rt ev) =
              Returns \<lparr>statusCode = 500, headers = [],
                body = JSON_stringify
                  (JObj [(''error'', JStr (''Function Execution Error: '' @ message e))])\<rparr>)"
  using assms
  by (auto dest!: handler_relay handler2_relay
      simp: relay_def relay2_def json_of_def function_error_def)

theorem upstream_not_json_witness:
  \<open>fetch (example_runtime (Some ''K'') (replies 503 ''<html>Service Unavailable</html>''))
       (gemini_request ''K'' (JStr ''hi''))
     = Fulfilled \<lparr>status = 503, body_text = Fulfilled ''<html>Service Unavailable</html>''\<rparr>
   \<and> JSON_parse (example_runtime (Some ''K'') (replies 503 ''<html>Service Unavailable</html>''))
       ''<html>Service Unavailable</html>'' = Inl syntax_error
   \<and> handler (example_runtime (Some ''K'') (replies 503 ''<html>Service Unavailable</html>''))
       (post ''{"prompt":"hi"}'')
     = (Returns \<lparr>statusCode = 502, headers = [(''Content-Type'', ''application/json'')],
          body = ''{"error":"Invalid response from upstream API. Could not parse JSON.","details":"<html>Service Unavailable</html>"}''\<rparr>,
        [gemini_request ''K'' (JStr ''hi'')])
   \<and> handler2 (example_runtime (Some ''K'') (replies 503 ''<html>Service Unavailable</html>''))
       (post ''{"prompt":"hi"}'')
     = (Returns \<lparr>statusCode = 500, headers = [],
          body = ''{"error":"Function Execution Error: Unexpected token < in JSON at position 0"}''\<rparr>,
        [gemini_request ''K'' (JStr ''hi'')])\<close>
proof -
  let ?rt = "example_runtime (Some ''K'') (replies 503 ''<html>Service Unavailable</html>'')"
  let ?r = "\<lparr>status = 503, body_text = Fulfilled ''<html>Service Unavailable</html>''\<rparr>"
  have f: "fetch ?rt (gemini_request ''K'' (JStr ''hi'')) = Fulfilled ?r"
    by (simp add: example_runtime_def replies_def)
  have t: "body_text ?r = Fulfilled ''<html>Service Unavailable</html>''" by simp
  have p: "JSON_parse ?rt ''<html>Service Unavailable</html>'' = Inl syntax_error"
    by (simp add: example_runtime_def parse_example_def)
  show ?thesis
    using upstream_not_json [OF f t p, of \<open>post ''{"prompt":"hi"}''\<close>] f p
      example_call [of "replies 503 ''<html>Service Unavailable</html>''"]
    by (simp add: prod_eq_iff json_headers_def syntax_error_def stringify_defs)
qed

subsection \<open>A successful upstream reply\<close>

text \<open>
  Claim C5. For every upstream reply with a body that parses as JSON and a status in the
  range 200 to 299, the handler returns the status 200 with the header
  \<^verbatim>\<open>Content-Type: application/json\<close> and, as body, the serialization of the whole parsed
  value: no field is removed or changed in between. This holds of both implementations.
\<close>

theorem upstream_success_forwarded:
  assumes "fetch rt req = Fulfilled r" and "body_text r = Fulfilled raw"
    and "JSON_parse rt raw = Inr v" and "ok r"
  shows "(snd (handler rt ev) = [req] \<longrightarrow>
            fst (handler rt ev) =
              Returns \<lparr>statusCode = 200, headers = [(''Content-Type'', ''application/json'')],
                body = JSON_stringify v\<rparr>)
       \<and> (snd (handler2 rt ev) = [req] \<longrightarrow>
            fst (handler2 rt ev) =
              Returns \<lparr>statusCode = 200, headers = [(''Content-Type'', ''application/json'')],
                body = JSON_stringify v\<rparr>)"
  using assms
  by (auto dest!: handler_relay handler2_relay
      simp: relay_def relay2_def json_of_def translate_def json_headers_def)

theorem upstream_success_forwarded_witness:
  \<open>fetch (example_runtime (Some ''K'') (replies 200 ''{"candidates":[]}''))
       (gemini_request ''K'' (JStr ''hi''))
     = Fulfilled \<lparr>status = 200, body_text = Fulfilled ''{"candidates":[]}''\<rparr>
   \<and> JSON_parse (example_runtime (Some ''K'') (replies 200 ''{"candidates":[]}''))
       ''{"candidates":[]}'' = Inr (JObj [(''candidates'', JArr [])])
   \<and> ok \<lparr>status = 200, body_text = Fulfilled ''{"candidates":[]}''\<rparr>
   \<and> handler (example_runtime (Some ''K'') (replies 200 ''{"candidates":[]}''))
       (post ''{"prompt":"hi"}'')
     = (Returns \<lparr>statusCode = 200, headers = [(''Content-Type'', ''application/json'')],
          body = ''{"candidates":[]}''\<rparr>,
        [gemini_request ''K'' (JStr ''hi'')])
   \<and> handler2 (example_runtime (Some ''K'') (replies 200 ''{"candidates":[]}''))
       (post ''{"prompt":"hi"}'')
     = (Returns \<lparr>statusCode = 200, headers = [(''Content-Type'', ''application/json'')],
          body = ''{"candidates":[]}''\<rparr>,
        [gemini_request ''K'' (JStr ''hi'')])\<close>
proof -
  let ?rt = \<open>example_runtime (Some ''K'') (replies 200 ''{"candidates":[]}'')\<close>
  let ?r = \<open>\<lparr>status = 200, body_text = Fulfilled ''{"candidates":[]}''\<rparr>\<close>
  have f: "fetch ?rt (gemini_request ''K'' (JStr ''hi'')) = Fulfilled ?r"
    by (simp add: example_runtime_def replies_def)
  have t: \<open>body_text ?r = Fulfilled ''{"candidates":[]}''\<close> by simp
  have p: \<open>JSON_parse ?rt ''{"candidates":[]}'' = Inr (JObj [(''candidates'', JArr [])])\<close>
    by (simp add: example_runtime_def parse_example_def)
  have k: "ok ?r" by (simp add: ok_def)
  show ?thesis
    using upstream_success_forwarded [OF f t p k, of \<open>post ''{"prompt":"hi"}''\<close>] f p k
      example_call [of \<open>replies 200 ''{"candidates":[]}''\<close>]
    by (simp add: prod_eq_iff stringify_defs)
qed

subsection \<open>A credential that is not configured\<close>

text \<open>
  Claim C6. When the credential is absent from the configuration (the variable is not set
  or is empty), no upstream call is made, whatever the event; and for every POST request
  whose body is a JSON object with a non-empty string as \<^verbatim>\<open>prompt\<close> the handler returns
  the status 500 with an error body. This holds of both implementations: the credential
  is tested before \<^verbatim>\<open>fetch\<close> is reached.
\<close>

theorem credential_absent:
  assumes "\<not> key_set (GEMINI_API_KEY rt)"
  shows "snd (handler rt ev) = [] \<and> snd (handler2 rt ev) = []
       \<and> (httpMethod ev = ''POST'' \<and> JSON_parse rt (event_body ev) = Inr (JObj kvs)
            \<and> map_of kvs ''prompt'' = Some (JStr p) \<and> p \<noteq> [] \<longrightarrow>
            fst (handler rt ev) =
              Returns \<lparr>statusCode = 500, headers = json_headers,
                body = JSON_stringify
                  (JObj [(''error'', JStr ''Server configuration error: API key is missing.'')])\<rparr>
          \<and> fst (handler2 rt ev) =
              Returns \<lparr>statusCode = 500, headers = [],
                body = JSON_stringify
                  (JObj [(''error'', JStr ''API key not configured on the server.'')])\<rparr>)"
proof -
  have "snd (handler rt ev) = []"
    using handler_calls [of rt ev] assms by (auto simp: key_set_def)
  moreover have "snd (handler2 rt ev) = []"
    using handler2_calls [of rt ev] assms by (auto simp: key_set_def)
  moreover have "fst (handler rt ev) =
              Returns \<lparr>statusCode = 500, headers = json_headers,
                body = JSON_stringify
                  (JObj [(''error'', JStr ''Server configuration error: API key is missing.'')])\<rparr>"
    if "httpMethod ev = ''POST''" "JSON_parse rt (event_body ev) = Inr (JObj kvs)"
       "map_of kvs ''prompt'' = Some (JStr p)" "p \<noteq> []"
    using assms that by (simp add: handler_def destructure_def own_prop_def no_call_def)
  moreover have "fst (handler2 rt ev) =
              Returns \<lparr>statusCode = 500, headers = [],
                body = JSON_stringify
                  (JObj [(''error'', JStr ''API key not configured on the server.'')])\<rparr>"
    if "httpMethod ev = ''POST''" "JSON_parse rt (event_body ev) = Inr (JObj kvs)"
    using assms that by (simp add: handler2_def get_prop_def own_prop_def no_call_def)
  ultimately show ?thesis by blast
qed

theorem credential_absent_witness:
  \<open>\<not> key_set (GEMINI_API_KEY (example_runtime None (replies 200 ''{"candidates":[]}'')))
   \<and> httpMethod (post ''{"prompt":"hi"}'') = ''POST''
   \<and> JSON_parse (example_runtime None (replies 200 ''{"candidates":[]}''))
        (event_body (post ''{"prompt":"hi"}'')) = Inr (JObj [(''prompt'', JStr ''hi'')])
   \<and> map_of [(''prompt'', JStr ''hi'')] ''prompt'' = Some (JStr ''hi'') \<and> ''hi'' \<noteq> []
   \<and> handler (example_runtime None (replies 200 ''{"candidates":[]}'')) (post ''{"prompt":"hi"}'')
     = (Returns \<lparr>statusCode = 500, headers = [(''Content-Type'', ''application/json'')],
          body = ''{"error":"Server configuration error: API key is missing."}''\<rparr>, [])
   \<and> handler2 (example_runtime None (replies 200 ''{"candidates":[]}'')) (post ''{"prompt":"hi"}'')
     = (Returns \<lparr>statusCode = 500, headers = [],
          body = ''{"error":"API key not configured on the server."}''\<rparr>, [])\<close>
proof -
  let ?rt = \<open>example_runtime None (replies 200 ''{"candidates":[]}'')\<close>
  have k: "\<not> key_set (GEMINI_API_KEY ?rt)"
    by (simp add: example_runtime_def key_set_def)
  show ?thesis
    using credential_absent [OF k, of \<open>post ''{"prompt":"hi"}''\<close> "[(''prompt'', JStr ''hi'')]" "''hi''"] k
    by (simp add: prod_eq_iff example_runtime_def parse_example_def post_def json_headers_def
        stringify_defs)
qed

subsection \<open>A missing prompt\<close>

text \<open>
  Claim C7 says that for every POST request whose body parses as a JSON object lacking a
  non-empty string \<^verbatim>\<open>prompt\<close>, a \<^verbatim>\<open>prompt\<close> that is not a string included, the handler
  returns the status 400 without calling upstream. The test of the code is \<^verbatim>\<open>!prompt\<close>,
  which a value such as \<^verbatim>\<open>true\<close> passes: the handler of lines 14 to 115 then answers
  500 when no credential is configured and throws at line 63 when one is, and the handler
  of lines 132 to 213 sends the value upstream.
\<close>

theorem truthy_prompt_counterexample:
  \<open>handler (example_runtime None refuses) (post ''{"prompt":true}'')
     = (Returns \<lparr>statusCode = 500, headers = [(''Content-Type'', ''application/json'')],
          body = ''{"error":"Server configuration error: API key is missing."}''\<rparr>, [])
   \<and> handler (example_runtime (Some ''K'') (replies 200 ''{"candidates":[]}''))
       (post ''{"prompt":true}'')
     = (Throws (JsError ''TypeError'' ''prompt.substring is not a function''), [])
   \<and> handler2 (example_runtime (Some ''K'') (replies 200 ''{"candidates":[]}''))
       (post ''{"prompt":true}'')
     = (Returns \<lparr>statusCode = 200, headers = [(''Content-Type'', ''application/json'')],
          body = ''{"candidates":[]}''\<rparr>,
        [gemini_request ''K'' (JBool True)])\<close>
  by (simp add: example_defs handler_defs stringify_defs)

text \<open>
  Claim C7, amended. For every POST request whose body parses as a JSON object whose
  \<^verbatim>\<open>prompt\<close> is absent or falsy (the empty string, \<^verbatim>\<open>null\<close>, \<^verbatim>\<open>false\<close>, zero), the
  implementation of lines 14 to 115 returns the status 400 without calling upstream; the
  implementation of lines 132 to 213 does so when the credential is configured and
  returns the status 500 when it is not, without calling upstream either.
\<close>

theorem falsy_prompt_rejected:
  assumes "httpMethod ev = ''POST''"
    and "JSON_parse rt (event_body ev) = Inr (JObj kvs)"
    and "\<not> truthy (map_of kvs ''prompt'')"
  shows "handler rt ev =
           (Returns \<lparr>statusCode = 400, headers = json_headers,
              body = JSON_stringify
                (JObj [(''error'', JStr ''Bad request: 'prompt' is missing in the request body.'')])\<rparr>, [])
       \<and> handler2 rt ev =
           (if key_set (GEMINI_API_KEY rt)
            then (Returns \<lparr>statusCode = 400, headers = [],
                    body = JSON_stringify
                      (JObj [(''error'', JStr ''No prompt provided in the request body.'')])\<rparr>, [])
            else (Returns \<lparr>statusCode = 500, headers = [],
                    body = JSON_stringify
                      (JObj [(''error'', JStr ''API key not configured on the server.'')])\<rparr>, []))"
  using assms
  by (simp add: handler_def handler2_def destructure_def get_prop_def own_prop_def no_call_def
      key_set_def split: option.splits)

theorem falsy_prompt_rejected_witness:
  \<open>httpMethod (post ''{"prompt":""}'') = ''POST''
   \<and> JSON_parse (example_runtime (Some ''K'') refuses) (event_body (post ''{"prompt":""}''))
       = Inr (JObj [(''prompt'', JStr [])])
   \<and> \<not> truthy (map_of [(''prompt'', JStr [])] ''prompt'')
   \<and> handler (example_runtime (Some ''K'') refuses) (post ''{"prompt":""}'')
     = (Returns \<lparr>statusCode = 400, headers = [(''Content-Type'', ''application/json'')],
          body = ''{"error":"Bad request: 'prompt' is missing in the request body."}''\<rparr>, [])
   \<and> handler2 (example_runtime (Some ''K'') refuses) (post ''{"prompt":""}'')
     = (Returns \<lparr>statusCode = 400, headers = [],
          body = ''{"error":"No prompt provided in the request body."}''\<rparr>, [])\<close>
proof -
  let ?rt = "example_runtime (Some ''K'') refuses"
  let ?ev = \<open>post ''{"prompt":""}''\<close>
  have m: "httpMethod ?ev = ''POST''" by (simp add: post_def)
  have p: "JSON_parse ?rt (event_body ?ev) = Inr (JObj [(''prompt'', JStr [])])"
    by (simp add: example_runtime_def parse_example_def post_def)
  have t: "\<not> truthy (map_of [(''prompt'', JStr [])] ''prompt'')" by simp
  show ?thesis
    using falsy_prompt_rejected [OF m p t] m p
    by (simp add: example_runtime_def key_set_def json_headers_def stringify_defs)
qed

subsection \<open>The Content-Type header\<close>

text \<open>
  Claim C8 says that every response of the handler, on every path, carries the header
  \<^verbatim>\<open>Content-Type: application/json\<close>. The responses of the implementation of lines 132
  to 213 other than the successful one have no headers.
\<close>

theorem no_header_counterexample:
  \<open>handler2 (example_runtime (Some ''K'') refuses) (post ''{}'')
     = (Returns \<lparr>statusCode = 400, headers = [],
          body = ''{"error":"No prompt provided in the request body."}''\<rparr>, [])\<close>
  by (simp add: example_defs handler_defs stringify_defs)

lemma relay_headers:
  "relay rt req = Returns r \<Longrightarrow> (''Content-Type'', ''application/json'') \<in> set (headers r)"
  by (auto simp: relay_def translate_def proxy_error_def json_headers_def
      split: promise.splits sum.splits if_splits)

lemma relay2_headers:
  "relay2 rt req = Returns r \<Longrightarrow>
     ((''Content-Type'', ''application/json'') \<in> set (headers r)) = (statusCode r = 200)"
  by (auto simp: relay2_def function_error_def json_headers_def ok_def
      split: promise.splits sum.splits if_splits)

text \<open>
  Claim C8, amended. Every response that the implementation of lines 14 to 115 returns
  carries the header \<^verbatim>\<open>Content-Type: application/json\<close>; a response that the
  implementation of lines 132 to 213 returns carries it exactly when its status is 200.
\<close>

theorem content_type_header:
  "(fst (handler rt ev) = Returns r \<longrightarrow>
      (''Content-Type'', ''application/json'') \<in> set (headers r))
 \<and> (fst (handler2 rt ev) = Returns r2 \<longrightarrow>
      ((''Content-Type'', ''application/json'') \<in> set (headers r2)) = (statusCode r2 = 200))"
proof (intro conjI impI)
  assume a: "fst (handler rt ev) = Returns r"
  show "(''Content-Type'', ''application/json'') \<in> set (headers r)"
  proof (cases "snd (handler rt ev) = []")
    case True
    with a show ?thesis
      unfolding handler_def no_call_def
      by (auto simp: json_headers_def split: sum.splits option.splits if_splits)
  next
    case False
    with handler_calls [of rt ev] a show ?thesis by (auto dest: relay_headers)
  qed
next
  assume a: "fst (handler2 rt ev) = Returns r2"
  show "((''Content-Type'', ''application/json'') \<in> set (headers r2)) = (statusCode r2 = 200)"
  proof (cases "snd (handler2 rt ev) = []")
    case True
    with a show ?thesis
      unfolding handler2_def no_call_def
      by (auto simp: json_headers_def split: sum.splits option.splits if_splits)
  next
    case False
    with handler2_calls [of rt ev] a show ?thesis by (auto dest: relay2_headers)
  qed
qed

theorem content_type_header_witness:
  \<open>fst (handler (example_runtime (Some ''K'') (replies 200 ''{"candidates":[]}''))
          (post ''{"prompt":"hi"}''))
     = Returns \<lparr>statusCode = 200, headers = [(''Content-Type'', ''application/json'')],
         body = ''{"candidates":[]}''\<rparr>
   \<and> (''Content-Type'', ''application/json'')
       \<in> set (headers \<lparr>statusCode = 200, headers = [(''Content-Type'', ''application/json'')],
                 body = ''{"candidates":[]}''\<rparr>)
   \<and> fst (handler2 (example_runtime (Some ''K'') (replies 200 ''{"candidates":[]}''))
          (post ''{"prompt":"hi"}''))
     = Returns \<lparr>statusCode = 200, headers = [(''Content-Type'', ''application/json'')],
         body = ''{"candidates":[]}''\<rparr>
   \<and> statusCode \<lparr>statusCode = 200, headers = [(''Content-Type'', ''application/json'')],
         body = ''{"candidates":[]}''\<rparr> = 200\<close>
proof -
  let ?rt = \<open>example_runtime (Some ''K'') (replies 200 ''{"candidates":[]}'')\<close>
  let ?ev = \<open>post ''{"prompt":"hi"}''\<close>
  let ?r = \<open>\<lparr>statusCode = 200, headers = [(''Content-Type'', ''application/json'')],
         body = ''{"candidates":[]}''\<rparr>\<close>
  have a: "fst (handler ?rt ?ev) = Returns ?r"
    by (simp add: example_defs handler_defs stringify_defs)
  have b: "fst (handler2 ?rt ?ev) = Returns ?r"
    by (simp add: example_defs handler_defs stringify_defs)
  show ?thesis
    using content_type_header [of ?rt ?ev ?r ?r] a b by simp
qed

subsection \<open>A failure of the transport\<close>

text \<open>
  Claim C9 says that whenever the upstream transport call throws, the handler returns the
  status 500 with a body whose \<^verbatim>\<open>error\<close> field is \<^verbatim>\<open>Proxy function execution error: \<close>
  followed by the message of the error. The implementation of lines 132 to 213 writes
  another prefix.
\<close>

theorem legacy_prefix_counterexample:
  \<open>handler2 (example_runtime (Some ''K'') refuses) (post ''{"prompt":"hi"}'')
     = (Returns \<lparr>statusCode = 500, headers = [],
          body = ''{"error":"Function Execution Error: request to https://generativelanguage.googleapis.com/v1beta/models/gemini-2.0-flash:generateContent?key=K failed, reason: connect ECONNREFUSED"}''\<rparr>,
        [gemini_request ''K'' (JStr ''hi'')])\<close>
  by (simp add: example_defs handler_defs stringify_defs)

text \<open>
  Claim C9, amended. Whenever the upstream transport call throws, the handler returns the
  status 500 with a body whose \<^verbatim>\<open>error\<close> field is a prefix followed by the message of
  the error: \<^verbatim>\<open>Proxy function execution error: \<close> in the implementation of lines 14 to
  115, \<^verbatim>\<open>Function Execution Error: \<close> in the implementation of lines 132 to 213.
\<close>

theorem transport_failure_500:
  assumes "transport_failure rt req e"
  shows "(snd (handler rt ev) = [req] \<longrightarrow>
            fst (handler rt ev) =
              Returns \<lparr>statusCode = 500, headers = json_headers,
                body = JSON_stringify
                  (JObj [(''error'', JStr (''Proxy function execution error: '' @ message e))])\<rparr>)
       \<and> (snd (handler2 rt ev) = [req] \<longrightarrow>
            fst (handler2 rt ev) =
              Returns \<lparr>statusCode = 500, headers = [],
                body = JSON_stringify
                  (JObj [(''error'', JStr (''Function Execution Error: '' @ message e))])\<rparr>)"
  using assms
  by (auto dest!: handler_relay handler2_relay
      simp: transport_failure_def relay_def relay2_def json_of_def function_error_def proxy_error_def
      split: promise.splits)

theorem transport_failure_500_witness:
  \<open>transport_failure (example_runtime (Some ''K'') refuses) (gemini_request ''K'' (JStr ''hi''))
     (JsError ''FetchError'' ''request to https://generativelanguage.googleapis.com/v1beta/models/gemini-2.0-flash:generateContent?key=K failed, reason: connect ECONNREFUSED'')
   \<and> handler (example_runtime (Some ''K'') refuses) (post ''{"prompt":"hi"}'')
     = (Returns \<lparr>statusCode = 500, headers = [(''Content-Type'', ''application/json'')],
          body = ''{"error":"Proxy function execution error: request to https://generativelanguage.googleapis.com/v1beta/models/gemini-2.0-flash:generateContent?key=K failed, reason: connect ECONNREFUSED"}''\<rparr>,
        [gemini_request ''K'' (JStr ''hi'')])
   \<and> handler2 (example_runtime (Some ''K'') refuses) (post ''{"prompt":"hi"}'')
     = (Returns \<lparr>statusCode = 500, headers = [],
          body = ''{"error":"Function Execution Error: request to https://generativelanguage.googleapis.com/v1beta/models/gemini-2.0-flash:generateContent?key=K failed, reason: connect ECONNREFUSED"}''\<rparr>,
        [gemini_request ''K'' (JStr ''hi'')])\<close>
proof -
  let ?rt = "example_runtime (Some ''K'') refuses"
  let ?e = "JsError ''FetchError'' ''request to https://generativelanguage.googleapis.com/v1beta/models/gemini-2.0-flash:generateContent?key=K failed, reason: connect ECONNREFUSED''"
  have f: "transport_failure ?rt (gemini_request ''K'' (JStr ''hi'')) ?e"
    by (simp add: transport_failure_def example_runtime_def refuses_def gemini_request_def
        gemini_url_def)
  show ?thesis
    using transport_failure_500 [OF f, of \<open>post ''{"prompt":"hi"}''\<close>] f
      example_call [of refuses]
    by (simp add: prod_eq_iff json_headers_def stringify_defs)
qed

subsection \<open>An uncaught exception\<close>

text \<open>
  Claim C3 says that for every event, the body \<^verbatim>\<open>null\<close> included, the handler ends with
  a response and never throws. In the implementation of lines 14 to 115 the destructuring
  of line 37 stands outside every \<^verbatim>\<open>try\<close>: on the body \<^verbatim>\<open>null\<close> it throws, and the
  exception leaves the handler.
\<close>

theorem null_request_body_throws:
  \<open>handler (example_runtime (Some ''K'') refuses) (post ''null'')
     = (Throws (JsError ''TypeError''
          ''Cannot destructure property 'prompt' of 'requestBody' as it is null.''), [])\<close>
  by (simp add: example_defs handler_defs)

text \<open>
  The implementation of lines 132 to 213 reads the property inside its \<^verbatim>\<open>try\<close> and
  answers 400 on the same event; it returns a response on every event.
\<close>

lemma null_request_body_handler2:
  \<open>handler2 (example_runtime (Some ''K'') refuses) (post ''null'')
     = (Returns \<lparr>statusCode = 400, headers = [],
          body = ''{"error":"Bad request: Could not parse JSON body."}''\<rparr>, [])\<close>
  by (simp add: example_defs handler_defs stringify_defs)

lemma handler2_returns: "\<exists>r. fst (handler2 rt ev) = Returns r"
proof (cases "snd (handler2 rt ev) = []")
  case True
  then show ?thesis
    unfolding handler2_def no_call_def
    by (auto split: sum.splits option.splits if_splits)
next
  case False
  have "\<exists>r. relay2 rt req = Returns r" for req
    by (auto simp: relay2_def function_error_def split: promise.splits sum.splits)
  with False handler2_calls [of rt ev] show ?thesis by auto
qed

text \<open>
  The implementation of lines 14 to 115 throws in one more case: line 63 calls
  \<^verbatim>\<open>substring\<close> on a prompt that is truthy but not a string, outside the \<^verbatim>\<open>try\<close> too.
  These two cases are the only ones.
\<close>

lemma non_string_prompt_throws:
  \<open>handler (example_runtime (Some ''K'') refuses) (post ''{"prompt":true}'')
     = (Throws (JsError ''TypeError'' ''prompt.substring is not a function''), [])\<close>
  by (simp add: example_defs handler_defs)

lemma relay_returns: "\<exists>r. relay rt req = Returns r"
  by (auto simp: relay_def translate_def proxy_error_def split: promise.splits sum.splits)

lemma snippet_string: "(\<exists>e. snippet p = Inl e) = (\<forall>s. p \<noteq> JStr s)"
  by (cases p) (auto simp: snippet_def)

lemma handler_throws:
  "(\<exists>e. fst (handler rt ev) = Throws e) =
     (httpMethod ev = ''POST'' \<and>
      (\<exists>b. JSON_parse rt (event_body ev) = Inr b \<and>
         (b = JNull \<or>
          (truthy (own_prop b ''prompt'') \<and> key_set (GEMINI_API_KEY rt) \<and>
           (\<forall>s. own_prop b ''prompt'' \<noteq> Some (JStr s))))))"
proof (cases "snd (handler rt ev) = []")
  case False
  with handler_calls [of rt ev] obtain key p where
    p: "handler rt ev = (relay rt (gemini_request key p), [gemini_request key p])"
    by auto
  then have "\<not> (\<exists>e. fst (handler rt ev) = Throws e)"
    using relay_returns [of rt "gemini_request key p"] by auto
  moreover from False have "\<not> (httpMethod ev = ''POST'' \<and>
      (\<exists>b. JSON_parse rt (event_body ev) = Inr b \<and>
         (b = JNull \<or>
          (truthy (own_prop b ''prompt'') \<and> key_set (GEMINI_API_KEY rt) \<and>
           (\<forall>s. own_prop b ''prompt'' \<noteq> Some (JStr s))))))"
    unfolding handler_def no_call_def destructure_def
    by (auto simp: snippet_def key_set_def split: sum.splits option.splits if_splits json.splits)
  ultimately show ?thesis by blast
next
  case True
  then show ?thesis
    unfolding handler_def no_call_def destructure_def
    by (auto simp: snippet_def key_set_def split: sum.splits option.splits if_splits json.splits)
qed

subsection \<open>An upstream reply with an error status\<close>

text \<open>
  Claim C4 says that for every upstream reply with a body that parses as JSON and a
  status outside 200 to 299, the handler returns the status of the reply, an error message
  taken from \<^verbatim>\<open>error.message\<close> of the parsed body or else a generic one that names the
  status, prefixed to show that it comes from upstream, and the error object of the reply
  as \<^verbatim>\<open>details\<close>. A body that is the JSON text \<^verbatim>\<open>null\<close> parses, but reading
  \<^verbatim>\<open>geminiData.error\<close> from it throws, and the \<^verbatim>\<open>catch\<close> answers 500. The
  implementation of lines 132 to 213 returns no \<^verbatim>\<open>details\<close>. A message that is an
  object with a property \<^verbatim>\<open>toString\<close> of its own cannot be converted to the text that
  the template literal needs: the conversion throws, and the \<^verbatim>\<open>catch\<close> answers 500 again.
\<close>

theorem null_reply_counterexample:
  \<open>handler (example_runtime (Some ''K'') (replies 429 ''null'')) (post ''{"prompt":"hi"}'')
     = (Returns \<lparr>statusCode = 500, headers = [(''Content-Type'', ''application/json'')],
          body = ''{"error":"Proxy function execution error: Cannot read properties of null (reading 'error')"}''\<rparr>,
        [gemini_request ''K'' (JStr ''hi'')])
   \<and> handler2 (example_runtime (Some ''K'') (replies 429 ''{"error":{"message":"rate limited"}}''))
       (post ''{"prompt":"hi"}'')
     = (Returns \<lparr>statusCode = 429, headers = [],
          body = ''{"error":"Gemini API Error: rate limited"}''\<rparr>,
        [gemini_request ''K'' (JStr ''hi'')])
   \<and> handler (example_runtime (Some ''K'') (replies 429 ''{"error":{"message":{"toString":1}}}''))
       (post ''{"prompt":"hi"}'')
     = (Returns \<lparr>statusCode = 500, headers = [(''Content-Type'', ''application/json'')],
          body = ''{"error":"Proxy function execution error: Cannot convert object to primitive value"}''\<rparr>,
        [gemini_request ''K'' (JStr ''hi'')])\<close>
  by (simp add: example_defs handler_defs stringify_defs)

text \<open>
  The same reply makes the implementation of lines 132 to 213 answer 500 too. A message
  that is a string, a number or a boolean always has a text.
\<close>

lemma unconvertible_message_handler2:
  \<open>handler2 (example_runtime (Some ''K'') (replies 429 ''{"error":{"message":{"toString":1}}}''))
       (post ''{"prompt":"hi"}'')
     = (Returns \<lparr>statusCode = 500, headers = [],
          body = ''{"error":"Function Execution Error: Cannot convert object to primitive value"}''\<rparr>,
        [gemini_request ''K'' (JStr ''hi'')])\<close>
  by (simp add: example_defs handler_defs stringify_defs)

lemma ToString_primitive:
  "ToString (JStr s) = Inr s"
  "ToString (JNum r) = Inr r"
  "ToString (JBool b) = Inr (if b then ''true'' else ''false'')"
  by simp_all

lemma or_text_truthy:
  assumes "\<forall>x. m = Some x \<and> truthy m \<longrightarrow> ToString x = Inr s"
  shows "or_text m fallback = Inr (if truthy m then s else fallback)"
  using assms by (cases m) (auto simp: or_text_def)

text \<open>
  Claim C4, amended. For every upstream reply with a status outside 200 to 299 and a body
  that parses as a JSON value other than \<^verbatim>\<open>null\<close>, and whose \<^verbatim>\<open>error.message\<close>, if it is
  truthy, has a text \<open>s\<close> (the conversion of the template literal succeeds: \<open>s\<close> is the
  message itself when that is a string; an object with a property \<^verbatim>\<open>toString\<close> of its
  own has no text), the handler returns the status of the reply and a body whose
  \<^verbatim>\<open>error\<close> field is \<^verbatim>\<open>Gemini API Error: \<close> followed by \<open>s\<close> when \<^verbatim>\<open>error.message\<close> is
  truthy, and by a generic message otherwise. In the implementation of
  lines 14 to 115 the generic message is \<^verbatim>\<open>Gemini API responded with status \<close> followed
  by the status, and the \<^verbatim>\<open>error\<close> member of the parsed body, when there is one, is the
  \<^verbatim>\<open>details\<close> field; in the implementation of lines 132 to 213 the generic message is
  \<^verbatim>\<open>Unknown Gemini API error\<close> and there is no \<^verbatim>\<open>details\<close> field.
\<close>

theorem upstream_error_forwarded:
  assumes "fetch rt req = Fulfilled r" and "body_text r = Fulfilled raw"
    and "JSON_parse rt raw = Inr v" and "\<not> ok r" and "v \<noteq> JNull"
    and "err = own_prop v ''error''" and "m = opt_chain err ''message''"
    and "\<forall>x. m = Some x \<and> truthy m \<longrightarrow> ToString x = Inr s"
  shows "(snd (handler rt ev) = [req] \<longrightarrow>
            fst (handler rt ev) =
              Returns \<lparr>statusCode = status r, headers = json_headers,
                body = JSON_stringify
                  (JObj ((''error'',
                          JStr (''Gemini API Error: '' @
                                (if truthy m then s
                                 else ''Gemini API responded with status '' @ decimal (status r))))
                         # opt_field ''details'' err))\<rparr>)
       \<and> (snd (handler2 rt ev) = [req] \<longrightarrow>
            fst (handler2 rt ev) =
              Returns \<lparr>statusCode = status r, headers = [],
                body = JSON_stringify
                  (JObj [(''error'',
                          JStr (''Gemini API Error: '' @
                                (if truthy m then s else ''Unknown Gemini API error'')))])\<rparr>)"
proof -
  note t = or_text_truthy [OF assms(8)]
  have "relay rt req = Returns \<lparr>statusCode = status r, headers = json_headers,
                body = JSON_stringify
                  (JObj ((''error'',
                          JStr (''Gemini API Error: '' @
                                (if truthy m then s
                                 else ''Gemini API responded with status '' @ decimal (status r))))
                         # opt_field ''details'' err))\<rparr>"
    using assms(1-7) t by (simp add: relay_def translate_def get_prop_def)
  moreover have "relay2 rt req = Returns \<lparr>statusCode = status r, headers = [],
                body = JSON_stringify
                  (JObj [(''error'',
                          JStr (''Gemini API Error: '' @
                                (if truthy m then s else ''Unknown Gemini API error'')))])\<rparr>"
    using assms(1-7) t by (simp add: relay2_def json_of_def get_prop_def)
  ultimately show ?thesis
    by (auto dest!: handler_relay handler2_relay)
qed

theorem upstream_error_forwarded_witness:
  \<open>JSON_parse (example_runtime (Some ''K'') (replies 429 ''{"error":{"message":"rate limited"}}''))
       ''{"error":{"message":"rate limited"}}''
     = Inr (JObj [(''error'', JObj [(''message'', JStr ''rate limited'')])])
   \<and> \<not> ok \<lparr>status = 429, body_text = Fulfilled ''{"error":{"message":"rate limited"}}''\<rparr>
   \<and> handler (example_runtime (Some ''K'') (replies 429 ''{"error":{"message":"rate limited"}}''))
       (post ''{"prompt":"hi"}'')
     = (Returns \<lparr>statusCode = 429, headers = [(''Content-Type'', ''application/json'')],
          body = ''{"error":"Gemini API Error: rate limited","details":{"message":"rate limited"}}''\<rparr>,
        [gemini_request ''K'' (JStr ''hi'')])
   \<and> handler2 (example_runtime (Some ''K'') (replies 429 ''{"error":{"message":"rate limited"}}''))
       (post ''{"prompt":"hi"}'')
     = (Returns \<lparr>statusCode = 429, headers = [],
          body = ''{"error":"Gemini API Error: rate limited"}''\<rparr>,
        [gemini_request ''K'' (JStr ''hi'')])
   \<and> JSON_parse (example_runtime (Some ''K'') (replies 503 ''{}'')) ''{}'' = Inr (JObj [])
   \<and> \<not> ok \<lparr>status = 503, body_text = Fulfilled ''{}''\<rparr>
   \<and> handler (example_runtime (Some ''K'') (replies 503 ''{}'')) (post ''{"prompt":"hi"}'')
     = (Returns \<lparr>statusCode = 503, headers = [(''Content-Type'', ''application/json'')],
          body = ''{"error":"Gemini API Error: Gemini API responded with status 503"}''\<rparr>,
        [gemini_request ''K'' (JStr ''hi'')])
   \<and> handler2 (example_runtime (Some ''K'') (replies 503 ''{}'')) (post ''{"prompt":"hi"}'')
     = (Returns \<lparr>statusCode = 503, headers = [],
          body = ''{"error":"Gemini API Error: Unknown Gemini API error"}''\<rparr>,
        [gemini_request ''K'' (JStr ''hi'')])\<close>
proof -
  let ?t = \<open>''{"error":{"message":"rate limited"}}''\<close>
  let ?rt = "example_runtime (Some ''K'') (replies 429 ?t)"
  let ?r = "\<lparr>status = 429, body_text = Fulfilled ?t\<rparr>"
  let ?v = "JObj [(''error'', JObj [(''message'', JStr ''rate limited'')])]"
  let ?ev = \<open>post ''{"prompt":"hi"}''\<close>
  have f: "fetch ?rt (gemini_request ''K'' (JStr ''hi'')) = Fulfilled ?r"
    by (simp add: example_runtime_def replies_def)
  have t: "body_text ?r = Fulfilled ?t" by simp
  have p: "JSON_parse ?rt ?t = Inr ?v"
    by (simp add: example_runtime_def parse_example_def)
  have k: "\<not> ok ?r" by (simp add: ok_def)
  have n: "?v \<noteq> JNull" by simp
  have e: "Some (JObj [(''message'', JStr ''rate limited'')]) = own_prop ?v ''error''"
    by (simp add: own_prop_def)
  have m: "Some (JStr ''rate limited'')
             = opt_chain (Some (JObj [(''message'', JStr ''rate limited'')])) ''message''"
    by (simp add: opt_chain_def own_prop_def)
  have s: "\<forall>x. Some (JStr ''rate limited'') = Some x \<and> truthy (Some (JStr ''rate limited''))
             \<longrightarrow> ToString x = Inr ''rate limited''"
    by auto
  let ?rt' = "example_runtime (Some ''K'') (replies 503 ''{}'')"
  let ?r' = "\<lparr>status = 503, body_text = Fulfilled ''{}''\<rparr>"
  have f': "fetch ?rt' (gemini_request ''K'' (JStr ''hi'')) = Fulfilled ?r'"
    by (simp add: example_runtime_def replies_def)
  have t': "body_text ?r' = Fulfilled ''{}''" by simp
  have p': "JSON_parse ?rt' ''{}'' = Inr (JObj [])"
    by (simp add: example_runtime_def parse_example_def)
  have k': "\<not> ok ?r'" by (simp add: ok_def)
  have n': "JObj [] \<noteq> JNull" by simp
  have e': "None = own_prop (JObj []) ''error''" by (simp add: own_prop_def)
  have m': "None = opt_chain None ''message''" by (simp add: opt_chain_def)
  have s': "\<forall>x. None = Some x \<and> truthy None \<longrightarrow> ToString x = Inr []" by simp
  have d: "decimal 503 = ''503''" by (simp add: decimal.simps digit_char_def)
  show ?thesis
    using upstream_error_forwarded [OF f t p k n e m s, of ?ev]
      upstream_error_forwarded [OF f' t' p' k' n' e' m' s', of ?ev]
      p k p' k' d example_call [of "replies 429 ?t"] example_call [of "replies 503 ''{}''"]
    by (simp add: prod_eq_iff json_headers_def opt_field_def stringify_defs)
qed

subsection \<open>The credential and the response\<close>

text \<open>
  Claim C2. Whatever the request and the upstream outcome, the credential never occurs in
  the body of the response. The code does not keep to it: the \<^verbatim>\<open>catch\<close> of lines 107 to
  114 (206 to 212 in the second implementation) copies the message of a transport error
  into the body, and nothing removes the credential from it. The URL of line 61 ends with
  the credential, and node-fetch 2 quotes the URL in the message of a request that
  failed. With the credential \<^verbatim>\<open>SECRET\<close> and an upstream that cannot be reached, the body
  that either implementation returns holds the credential.
\<close>

theorem credential_echoed_in_body:
  \<open>handler (example_runtime (Some ''SECRET'') refuses) (post ''{"prompt":"hi"}'')
     = (Returns \<lparr>statusCode = 500, headers = [(''Content-Type'', ''application/json'')],
          body = ''{"error":"Proxy function execution error: request to https://generativelanguage.googleapis.com/v1beta/models/gemini-2.0-flash:generateContent?key=SECRET failed, reason: connect ECONNREFUSED"}''\<rparr>,
        [gemini_request ''SECRET'' (JStr ''hi'')])
   \<and> in_body ''SECRET''
        (fst (handler (example_runtime (Some ''SECRET'') refuses) (post ''{"prompt":"hi"}'')))
   \<and> in_body ''SECRET''
        (fst (handler2 (example_runtime (Some ''SECRET'') refuses) (post ''{"prompt":"hi"}'')))\<close>
  by (simp add: in_body_def example_defs handler_defs stringify_defs sublist_Cons_right)

text \<open>
  The outcome of the upstream call is the only way by which the credential reaches the
  response: two invocations that differ only in the (non-empty) credential return the same
  response when the call that is made, if one is made, has the same outcome for both.
\<close>

lemma relay_same_outcome:
  "fetch rt1 req1 = fetch rt2 req2 \<Longrightarrow> JSON_parse rt1 = JSON_parse rt2 \<Longrightarrow>
     relay rt1 req1 = relay rt2 req2"
  by (simp add: relay_def split: promise.splits)

lemma relay2_same_outcome:
  "fetch rt1 req1 = fetch rt2 req2 \<Longrightarrow> JSON_parse rt1 = JSON_parse rt2 \<Longrightarrow>
     relay2 rt1 req1 = relay2 rt2 req2"
  by (simp add: relay2_def json_of_def split: promise.splits)

lemma handler_two_keys:
  assumes "k1 \<noteq> []" and "k2 \<noteq> []"
  shows "(snd (handler (rt\<lparr>GEMINI_API_KEY := Some k1\<rparr>) ev) = [] \<and>
          handler (rt\<lparr>GEMINI_API_KEY := Some k2\<rparr>) ev = handler (rt\<lparr>GEMINI_API_KEY := Some k1\<rparr>) ev)
       \<or> (\<exists>p. handler (rt\<lparr>GEMINI_API_KEY := Some k1\<rparr>) ev =
                 (relay (rt\<lparr>GEMINI_API_KEY := Some k1\<rparr>) (gemini_request k1 p), [gemini_request k1 p])
              \<and> handler (rt\<lparr>GEMINI_API_KEY := Some k2\<rparr>) ev =
                 (relay (rt\<lparr>GEMINI_API_KEY := Some k2\<rparr>) (gemini_request k2 p), [gemini_request k2 p]))"
  using assms
  by (auto simp: handler_def key_set_def no_call_def split: sum.splits option.splits)

lemma handler2_two_keys:
  assumes "k1 \<noteq> []" and "k2 \<noteq> []"
  shows "(snd (handler2 (rt\<lparr>GEMINI_API_KEY := Some k1\<rparr>) ev) = [] \<and>
          handler2 (rt\<lparr>GEMINI_API_KEY := Some k2\<rparr>) ev = handler2 (rt\<lparr>GEMINI_API_KEY := Some k1\<rparr>) ev)
       \<or> (\<exists>p. handler2 (rt\<lparr>GEMINI_API_KEY := Some k1\<rparr>) ev =
                 (relay2 (rt\<lparr>GEMINI_API_KEY := Some k1\<rparr>) (gemini_request k1 p), [gemini_request k1 p])
              \<and> handler2 (rt\<lparr>GEMINI_API_KEY := Some k2\<rparr>) ev =
                 (relay2 (rt\<lparr>GEMINI_API_KEY := Some k2\<rparr>) (gemini_request k2 p), [gemini_request k2 p]))"
  using assms
  by (auto simp: handler2_def key_set_def no_call_def split: sum.splits option.splits)

lemma credential_only_through_call:
  assumes "k1 \<noteq> []" and "k2 \<noteq> []"
    and "\<forall>p. snd (handler (rt\<lparr>GEMINI_API_KEY := Some k1\<rparr>) ev) = [gemini_request k1 p] \<longrightarrow>
             fetch rt (gemini_request k1 p) = fetch rt (gemini_request k2 p)"
  shows "fst (handler (rt\<lparr>GEMINI_API_KEY := Some k1\<rparr>) ev) =
         fst (handler (rt\<lparr>GEMINI_API_KEY := Some k2\<rparr>) ev)"
  using handler_two_keys [OF assms(1,2), of rt ev]
proof (elim disjE conjE exE)
  fix p
  assume c1: "handler (rt\<lparr>GEMINI_API_KEY := Some k1\<rparr>) ev =
                 (relay (rt\<lparr>GEMINI_API_KEY := Some k1\<rparr>) (gemini_request k1 p), [gemini_request k1 p])"
    and c2: "handler (rt\<lparr>GEMINI_API_KEY := Some k2\<rparr>) ev =
                 (relay (rt\<lparr>GEMINI_API_KEY := Some k2\<rparr>) (gemini_request k2 p), [gemini_request k2 p])"
  from c1 assms(3) have "fetch rt (gemini_request k1 p) = fetch rt (gemini_request k2 p)"
    by simp
  then have "relay (rt\<lparr>GEMINI_API_KEY := Some k1\<rparr>) (gemini_request k1 p) =
             relay (rt\<lparr>GEMINI_API_KEY := Some k2\<rparr>) (gemini_request k2 p)"
    by (intro relay_same_outcome) simp_all
  with c1 c2 show ?thesis by simp
qed simp

lemma credential_only_through_call2:
  assumes "k1 \<noteq> []" and "k2 \<noteq> []"
    and "\<forall>p. snd (handler2 (rt\<lparr>GEMINI_API_KEY := Some k1\<rparr>) ev) = [gemini_request k1 p] \<longrightarrow>
             fetch rt (gemini_request k1 p) = fetch rt (gemini_request k2 p)"
  shows "fst (handler2 (rt\<lparr>GEMINI_API_KEY := Some k1\<rparr>) ev) =
         fst (handler2 (rt\<lparr>GEMINI_API_KEY := Some k2\<rparr>) ev)"
  using handler2_two_keys [OF assms(1,2), of rt ev]
proof (elim disjE conjE exE)
  fix p
  assume c1: "handler2 (rt\<lparr>GEMINI_API_KEY := Some k1\<rparr>) ev =
                 (relay2 (rt\<lparr>GEMINI_API_KEY := Some k1\<rparr>) (gemini_request k1 p), [gemini_request k1 p])"
    and c2: "handler2 (rt\<lparr>GEMINI_API_KEY := Some k2\<rparr>) ev =
                 (relay2 (rt\<lparr>GEMINI_API_KEY := Some k2\<rparr>) (gemini_request k2 p), [gemini_request k2 p])"
  from c1 assms(3) have "fetch rt (gemini_request k1 p) = fetch rt (gemini_request k2 p)"
    by simp
  then have "relay2 (rt\<lparr>GEMINI_API_KEY := Some k1\<rparr>) (gemini_request k1 p) =
             relay2 (rt\<lparr>GEMINI_API_KEY := Some k2\<rparr>) (gemini_request k2 p)"
    by (intro relay2_same_outcome) simp_all
  with c1 c2 show ?thesis by simp
qed simp

end
